theory Spec2Isabelle
  imports Complex_Main "HOL-Library.Word"
begin

section \<open>Images\<close>

text \<open>
  A \<^verbatim>\<open>cv::Mat\<close> is a header (rows, cols) over a pixel buffer. The element type is
  the type parameter: a camera frame holds three 8-bit channels per pixel (B, G, R), a
  mask holds one 8-bit channel. \<^verbatim>\<open>clone()\<close> is a deep copy, so matrices are values
  here and cloning is the identity.
\<close>

type_synonym uchar = "8 word"

type_synonym bgr = "uchar \<times> uchar \<times> uchar"

record 'a mat =
  rows :: nat
  cols :: nat
  data :: "'a list"

type_synonym frame = "bgr mat"

type_synonym mask = "uchar mat"

text \<open>\<^verbatim>\<open>cv::Mat()\<close>: the default-constructed matrix, with no rows, no columns, no data.\<close>

definition Mat_default :: "'a mat" where
  "Mat_default = \<lparr>rows = 0, cols = 0, data = []\<rparr>"

text \<open>\<^verbatim>\<open>Mat::empty()\<close>: true when the matrix has no element.\<close>

definition empty_Mat :: "'a mat \<Rightarrow> bool" where
  "empty_Mat m \<longleftrightarrow> rows m * cols m = 0"

definition same_size :: "'a mat \<Rightarrow> 'b mat \<Rightarrow> bool" where
  "same_size a b \<longleftrightarrow> rows a = rows b \<and> cols a = cols b"

definition map_mat :: "('a \<Rightarrow> 'b) \<Rightarrow> 'a mat \<Rightarrow> 'b mat" where
  "map_mat f m = \<lparr>rows = rows m, cols = cols m, data = map f (data m)\<rparr>"

definition zip_mat :: "('a \<Rightarrow> 'b \<Rightarrow> 'c) \<Rightarrow> 'a mat \<Rightarrow> 'b mat \<Rightarrow> 'c mat" where
  "zip_mat f a b = \<lparr>rows = rows a, cols = cols a, data = map2 f (data a) (data b)\<rparr>"

text \<open>A mask is all-zero when none of its pixels is set.\<close>

definition all_zero :: "mask \<Rightarrow> bool" where
  "all_zero m \<longleftrightarrow> list_all (\<lambda>v. v = 0) (data m)"

section \<open>The OpenCV calls the program makes\<close>

text \<open>
  OpenCV is a library the program links against; its sources are not part of the
  repository. What the program relies on is modelled in two layers. The shape of every
  call is written out: which calls raise \<^verbatim>\<open>cv::Exception\<close> (an empty source given to
  \<^verbatim>\<open>cvtColor\<close>, two arrays of different sizes given to an element-wise operation), and
  that every image operation returns an image of the size of its source. The pixel
  arithmetic that OpenCV does in tables, fixed point or floating point (colour
  conversion, the morphological filters, contour tracing, rasterisation, rounding) is a
  parameter, the record \<open>cv_prims\<close>: every theorem below holds for each value of it.
\<close>

datatype cv_error = StsAssert | StsUnmatchedSizes

type_synonym Point = "int \<times> int"

type_synonym contour = "Point list"

datatype morph_shape = MORPH_RECT | MORPH_CROSS | MORPH_ELLIPSE

datatype morph_op = MORPH_OPEN | MORPH_CLOSE

datatype kernel = StructuringElement morph_shape nat nat

datatype retr_mode = RETR_EXTERNAL | RETR_LIST | RETR_CCOMP | RETR_TREE

datatype approx_method = CHAIN_APPROX_NONE | CHAIN_APPROX_SIMPLE

record cv_prims =
  bgr2hsv :: "bgr \<Rightarrow> bgr"
  bgr2gray :: "bgr \<Rightarrow> uchar"
  morph_px :: "morph_op \<Rightarrow> kernel \<Rightarrow> mask \<Rightarrow> nat \<Rightarrow> uchar"
  find_contours :: "mask \<Rightarrow> retr_mode \<Rightarrow> approx_method \<Rightarrow> contour list"
  contour_area :: "contour \<Rightarrow> real"
  contour_pixels :: "frame \<Rightarrow> contour \<Rightarrow> nat \<Rightarrow> nat \<Rightarrow> bool"
  text_pixels :: "frame \<Rightarrow> string \<Rightarrow> Point \<Rightarrow> nat \<Rightarrow> nat \<Rightarrow> bool"
  saturate_cast_uchar :: "real \<Rightarrow> uchar"

text \<open>
  \<^verbatim>\<open>cv::cvtColor(src, dst, code)\<close> asserts that the source is not empty and converts
  pixel by pixel.
\<close>

definition cvtColor_BGR2HSV :: "cv_prims \<Rightarrow> frame \<Rightarrow> cv_error + frame" where
  "cvtColor_BGR2HSV cv src =
     (if empty_Mat src then Inl StsAssert else Inr (map_mat (bgr2hsv cv) src))"

definition cvtColor_BGR2GRAY :: "cv_prims \<Rightarrow> frame \<Rightarrow> cv_error + mask" where
  "cvtColor_BGR2GRAY cv src =
     (if empty_Mat src then Inl StsAssert else Inr (map_mat (bgr2gray cv) src))"

definition cvtColor_GRAY2BGR :: "mask \<Rightarrow> cv_error + frame" where
  "cvtColor_GRAY2BGR src =
     (if empty_Mat src then Inl StsAssert else Inr (map_mat (\<lambda>v. (v, v, v)) src))"

text \<open>
  \<^verbatim>\<open>cv::inRange(src, lowerb, upperb, dst)\<close>: 255 where every channel lies within its
  bounds (both inclusive), else 0.
\<close>

definition inRange :: "frame \<Rightarrow> nat \<times> nat \<times> nat \<Rightarrow> nat \<times> nat \<times> nat \<Rightarrow> mask" where
  "inRange src lowerb upperb =
     map_mat (\<lambda>(c0, c1, c2).
        (case (lowerb, upperb) of ((l0, l1, l2), (u0, u1, u2)) \<Rightarrow>
           if l0 \<le> unat c0 \<and> unat c0 \<le> u0 \<and> l1 \<le> unat c1 \<and> unat c1 \<le> u1
              \<and> l2 \<le> unat c2 \<and> unat c2 \<le> u2
           then 255 else 0)) src"

text \<open>\<^verbatim>\<open>cv::threshold(src, dst, thresh, maxval, THRESH_BINARY)\<close>.\<close>

definition threshold :: "mask \<Rightarrow> nat \<Rightarrow> uchar \<Rightarrow> mask" where
  "threshold src thresh maxval = map_mat (\<lambda>v. if unat v > thresh then maxval else 0) src"

text \<open>
  The element-wise operations on two arrays raise \<^verbatim>\<open>StsUnmatchedSizes\<close> unless both
  have the same size.
\<close>

definition bitwise_and :: "mask \<Rightarrow> mask \<Rightarrow> cv_error + mask" where
  "bitwise_and src1 src2 =
     (if same_size src1 src2 then Inr (zip_mat (\<lambda>a b. and a b) src1 src2)
      else Inl StsUnmatchedSizes)"

definition absdiff :: "mask \<Rightarrow> mask \<Rightarrow> cv_error + mask" where
  "absdiff src1 src2 =
     (if same_size src1 src2
      then Inr (zip_mat (\<lambda>a b. if a \<le> b then b - a else a - b) src1 src2)
      else Inl StsUnmatchedSizes)"

definition getStructuringElement :: "morph_shape \<Rightarrow> nat \<Rightarrow> nat \<Rightarrow> kernel" where
  "getStructuringElement shape w h = StructuringElement shape w h"

text \<open>
  \<^verbatim>\<open>cv::morphologyEx(src, dst, op, kernel)\<close>: the destination has the size of the
  source; each of its pixels is computed from the source by the filter.
\<close>

definition morphologyEx :: "cv_prims \<Rightarrow> mask \<Rightarrow> morph_op \<Rightarrow> kernel \<Rightarrow> mask" where
  "morphologyEx cv src op k =
     \<lparr>rows = rows src, cols = cols src,
      data = map (morph_px cv op k src) [0..<length (data src)]\<rparr>"

text \<open>
  \<^verbatim>\<open>cv::countNonZero(src)\<close> returns an \<^verbatim>\<open>int\<close>. The count is at most the number of
  pixels of a frame, far below \<open>2^31\<close>, and the only arithmetic on it is one subtraction
  of two such counts, so the unbounded \<open>int\<close> of HOL computes what the program does.
\<close>

definition countNonZero :: "mask \<Rightarrow> int" where
  "countNonZero src = int (length (filter (\<lambda>v. v \<noteq> 0) (data src)))"

text \<open>
  Drawing changes pixels of the image in place: the pixels that the rasteriser selects
  take the given colour, the others stay.
\<close>

definition paint :: "(nat \<Rightarrow> bool) \<Rightarrow> bgr \<Rightarrow> frame \<Rightarrow> frame" where
  "paint sel colour img =
     img\<lparr>data := map (\<lambda>(i, p). if sel i then colour else p)
                    (zip [0..<length (data img)] (data img))\<rparr>"

definition drawContours :: "cv_prims \<Rightarrow> frame \<Rightarrow> contour \<Rightarrow> bgr \<Rightarrow> nat \<Rightarrow> frame" where
  "drawContours cv img c colour thickness = paint (contour_pixels cv img c thickness) colour img"

definition putText :: "cv_prims \<Rightarrow> frame \<Rightarrow> string \<Rightarrow> Point \<Rightarrow> bgr \<Rightarrow> nat \<Rightarrow> frame" where
  "putText cv img txt org colour thickness = paint (text_pixels cv img txt org thickness) colour img"

text \<open>
  \<^verbatim>\<open>cv::addWeighted(src1, alpha, src2, beta, gamma, dst)\<close>: per channel,
  \<^verbatim>\<open>saturate_cast<uchar>(src1 * alpha + src2 * beta + gamma)\<close>.
\<close>

definition addWeighted :: "cv_prims \<Rightarrow> frame \<Rightarrow> real \<Rightarrow> frame \<Rightarrow> real \<Rightarrow> real \<Rightarrow> cv_error + frame" where
  "addWeighted cv src1 alpha src2 beta gamma =
     (if same_size src1 src2
      then Inr (zip_mat (\<lambda>(b1, g1, r1) (b2, g2, r2).
                  (let w = (\<lambda>x y. saturate_cast_uchar cv
                                (real (unat x) * alpha + real (unat y) * beta + gamma))
                   in (w b1 b2, w g1 g2, w r1 r2))) src1 src2)
      else Inl StsUnmatchedSizes)"

section \<open>The detectors\<close>

definition detectPotentialFire :: "cv_prims \<Rightarrow> frame \<Rightarrow> cv_error + mask" where
  "detectPotentialFire cv frame =
     (case cvtColor_BGR2HSV cv frame of Inl e \<Rightarrow> Inl e | Inr hsv \<Rightarrow>
      (let mask1 = inRange hsv (0, 50, 200) (25, 255, 255) in
       case cvtColor_BGR2GRAY cv frame of Inl e \<Rightarrow> Inl e | Inr gray \<Rightarrow>
       (let mask2 = threshold gray 200 255 in
        case bitwise_and mask1 mask2 of Inl e \<Rightarrow> Inl e | Inr fireMask \<Rightarrow>
        (let kernel = getStructuringElement MORPH_ELLIPSE 5 5;
             fireMask = morphologyEx cv fireMask MORPH_OPEN kernel;
             fireMask = morphologyEx cv fireMask MORPH_CLOSE kernel
         in Inr fireMask))))"

definition detectSmoke :: "cv_prims \<Rightarrow> frame \<Rightarrow> frame \<Rightarrow> cv_error + mask" where
  "detectSmoke cv frame prevFrame =
     (if empty_Mat frame \<or> empty_Mat prevFrame then Inr Mat_default
      else
       case cvtColor_BGR2GRAY cv frame of Inl e \<Rightarrow> Inl e | Inr gray \<Rightarrow>
       (case cvtColor_BGR2GRAY cv prevFrame of Inl e \<Rightarrow> Inl e | Inr prevGray \<Rightarrow>
        (case absdiff gray prevGray of Inl e \<Rightarrow> Inl e | Inr diff \<Rightarrow>
         (let diff = threshold diff 15 255 in
          case cvtColor_BGR2HSV cv frame of Inl e \<Rightarrow> Inl e | Inr hsv \<Rightarrow>
          (let smokeMask = inRange hsv (0, 0, 100) (179, 30, 200) in
           case bitwise_and diff smokeMask of Inl e \<Rightarrow> Inl e | Inr smokeMask \<Rightarrow>
           (let kernel = getStructuringElement MORPH_ELLIPSE 10 10;
                smokeMask = morphologyEx cv smokeMask MORPH_OPEN kernel;
                smokeMask = morphologyEx cv smokeMask MORPH_CLOSE kernel
            in Inr smokeMask))))))"

section \<open>The frame loop of main\<close>

definition HISTORY_SIZE :: nat where
  "HISTORY_SIZE = 10"

definition fireDetectionThreshold :: int where
  "fireDetectionThreshold = 100"

definition smokeDetectionThreshold :: int where
  "smokeDetectionThreshold = 1000"

definition fireGrowthThreshold :: int where
  "fireGrowthThreshold = 50"

text \<open>
  The variables that live across iterations. The two counters are C++ \<^verbatim>\<open>int\<close>s:
  32-bit words read as signed numbers (\<open>sint\<close>), on which \<open>+ 1\<close> wraps.
\<close>

record loop_state =
  prevFrame :: frame
  frameHistory :: "mask list"
  consecutiveFireFrames :: "32 word"
  consecutiveSmokeFrames :: "32 word"

definition initial_state :: loop_state where
  "initial_state =
     \<lparr>prevFrame = Mat_default, frameHistory = [],
      consecutiveFireFrames = 0, consecutiveSmokeFrames = 0\<rparr>"

text \<open>Lines 109 to 112: \<^verbatim>\<open>push_back\<close>, then \<^verbatim>\<open>pop_front\<close> when the size exceeds the bound.\<close>

definition store_history :: "mask list \<Rightarrow> mask \<Rightarrow> mask list" where
  "store_history history fire =
     (let h = history @ [fire]
      in if length h > HISTORY_SIZE then tl h else h)"

text \<open>Lines 115 to 117, on the history as updated by the lines before.\<close>

definition current_area :: "mask \<Rightarrow> int" where
  "current_area fire = countNonZero fire"

definition previous_area :: "mask list \<Rightarrow> int" where
  "previous_area history =
     (if length history > 1 then countNonZero (hd history) else 0)"

definition significant_growth :: "int \<Rightarrow> int \<Rightarrow> bool" where
  "significant_growth cur prev \<longleftrightarrow> cur - prev > fireGrowthThreshold"

text \<open>
  Lines 123 to 128: the loop over the contours, carrying the flag and the frame it
  draws on.
\<close>

fun scan_contours :: "cv_prims \<Rightarrow> contour list \<Rightarrow> bool \<times> frame \<Rightarrow> bool \<times> frame" where
  "scan_contours cv [] (found, frame) = (found, frame)"
| "scan_contours cv (c # cs) (found, frame) =
     (if contour_area cv c > real_of_int smokeDetectionThreshold
      then scan_contours cv cs (True, drawContours cv frame c (0, 255, 0) 2)
      else scan_contours cv cs (found, frame))"

text \<open>Lines 131 to 141: a counter goes up by one or back to zero.\<close>

definition update_counter :: "bool \<Rightarrow> 32 word \<Rightarrow> 32 word" where
  "update_counter qualifies n = (if qualifies then n + 1 else 0)"

text \<open>Line 144.\<close>

definition alert_condition :: "32 word \<Rightarrow> 32 word \<Rightarrow> bool" where
  "alert_condition fireFrames smokeFrames \<longleftrightarrow> 3 \<le> sint fireFrames \<and> 3 \<le> sint smokeFrames"

text \<open>
  One iteration, from the frame just read (not empty) to \<^verbatim>\<open>imshow\<close> and the copy into
  \<^verbatim>\<open>prevFrame\<close>. The result holds the state for the next iteration and the values of
  the iteration's local variables.
\<close>

record iteration =
  next_state :: loop_state
  potentialFire :: mask
  smokeMask :: mask
  currentFireArea :: int
  previousFireArea :: int
  significantFireGrowth :: bool
  smokeContours :: "contour list"
  significantSmoke :: bool
  alert :: bool
  shown :: frame

definition loop_body :: "cv_prims \<Rightarrow> loop_state \<Rightarrow> frame \<Rightarrow> cv_error + iteration" where
  "loop_body cv st frame =
     (case detectPotentialFire cv frame of Inl e \<Rightarrow> Inl e | Inr fire \<Rightarrow>
      (case detectSmoke cv frame (prevFrame st) of Inl e \<Rightarrow> Inl e | Inr smoke \<Rightarrow>
       (let history = store_history (frameHistory st) fire;
            cur = current_area fire;
            prev = previous_area history;
            growth = significant_growth cur prev;
            contours = find_contours cv smoke RETR_EXTERNAL CHAIN_APPROX_SIMPLE;
            (sig_smoke, frame1) = scan_contours cv contours (False, frame);
            fireFrames = update_counter (cur > fireDetectionThreshold \<and> growth)
                           (consecutiveFireFrames st);
            smokeFrames = update_counter sig_smoke (consecutiveSmokeFrames st);
            raised = alert_condition fireFrames smokeFrames;
            frame2 = (if raised
                      then putText cv frame1 ''FIRE ALERT!'' (10, 50) (0, 0, 255) 2
                      else frame1)
        in case cvtColor_GRAY2BGR fire of Inl e \<Rightarrow> Inl e | Inr fireVisualization \<Rightarrow>
           (case addWeighted cv frame2 0.7 fireVisualization 0.3 0 of Inl e \<Rightarrow> Inl e
            | Inr frame3 \<Rightarrow>
              Inr \<lparr>next_state =
                     \<lparr>prevFrame = frame3, frameHistory = history,
                      consecutiveFireFrames = fireFrames,
                      consecutiveSmokeFrames = smokeFrames\<rparr>,
                   potentialFire = fire, smokeMask = smoke,
                   currentFireArea = cur, previousFireArea = prev,
                   significantFireGrowth = growth,
                   smokeContours = contours, significantSmoke = sig_smoke,
                   alert = raised, shown = frame3\<rparr>))))"

text \<open>
  The loop. Each input is what one iteration reads from outside: the frame that
  \<^verbatim>\<open>cap >> frame\<close> delivers and the value \<^verbatim>\<open>waitKey(30)\<close> returns after the frame is
  shown. A stream that ends delivers an empty frame. The result is the list of the
  iterations that ran, in order, and how the loop ended; an exception of OpenCV is not
  caught anywhere, so it ends the program.
\<close>

datatype outcome = EndOfStream | KeyPressed | Uncaught cv_error

fun main_loop :: "cv_prims \<Rightarrow> loop_state \<Rightarrow> (frame \<times> int) list \<Rightarrow> iteration list \<times> outcome" where
  "main_loop cv st [] = ([], EndOfStream)"
| "main_loop cv st ((frame, key) # rest) =
     (if empty_Mat frame then ([], EndOfStream)
      else case loop_body cv st frame of
             Inl e \<Rightarrow> ([], Uncaught e)
           | Inr it \<Rightarrow>
               if key \<ge> 0 then ([it], KeyPressed)
               else (case main_loop cv (next_state it) rest of
                       (its, out) \<Rightarrow> (it # its, out)))"

section \<open>An instance of the OpenCV parameters\<close>

text \<open>
  To run the model on concrete frames the parameters need values. \<open>plain_cv\<close> takes the
  colour conversions from the formulas of the OpenCV documentation, in integer arithmetic
  with rounding; applies no morphological filtering (what opening and closing do to an
  image of a single pixel); reports one contour, around the whole image, when the mask
  has a set pixel; measures a contour by the shoelace formula, as \<^verbatim>\<open>contourArea\<close>
  does; draws a contour at its vertices and no text; and rounds to the nearest value
  within 0 to 255. The theorems of the next sections hold for every value of the
  parameters; this one is used where a statement is evaluated at a concrete input.
\<close>

definition hsv_of_bgr :: "bgr \<Rightarrow> bgr" where
  "hsv_of_bgr p = (case p of (b8, g8, r8) \<Rightarrow>
     (let b = uint b8; g = uint g8; r = uint r8;
          v = max b (max g r); d = v - min b (min g r);
          s = (if v = 0 then 0 else (255 * d + v div 2) div v);
          h = (if d = 0 then 0
               else if v = r then (30 * (g - b) + d div 2) div d
               else if v = g then 60 + (30 * (b - r) + d div 2) div d
               else 120 + (30 * (r - g) + d div 2) div d)
      in (word_of_int (if h < 0 then h + 180 else h), word_of_int s, word_of_int v)))"

definition gray_of_bgr :: "bgr \<Rightarrow> uchar" where
  "gray_of_bgr p = (case p of (b, g, r) \<Rightarrow>
     word_of_int ((1868 * uint b + 9617 * uint g + 4899 * uint r + 8192) div 16384))"

definition frame_contour :: "mask \<Rightarrow> retr_mode \<Rightarrow> approx_method \<Rightarrow> contour list" where
  "frame_contour m mode method =
     (if countNonZero m = 0 then []
      else [[(0, 0), (0, int (rows m) - 1), (int (cols m) - 1, int (rows m) - 1),
             (int (cols m) - 1, 0)]])"

fun shoelace :: "Point \<Rightarrow> contour \<Rightarrow> int" where
  "shoelace prev [] = 0"
| "shoelace prev (p # ps) = (fst prev * snd p - fst p * snd prev) + shoelace p ps"

definition polygon_area :: "contour \<Rightarrow> real" where
  "polygon_area c = (if c = [] then 0 else \<bar>real_of_int (shoelace (last c) c)\<bar> / 2)"

definition round_clamp :: "real \<Rightarrow> uchar" where
  "round_clamp x = word_of_int (max 0 (min 255 (round x)))"

definition plain_cv :: cv_prims where
  "plain_cv =
     \<lparr>bgr2hsv = hsv_of_bgr, bgr2gray = gray_of_bgr,
      morph_px = (\<lambda>op k src i. data src ! i),
      find_contours = frame_contour,
      contour_area = polygon_area,
      contour_pixels =
        (\<lambda>img c thickness i. (int (i mod cols img), int (i div cols img)) \<in> set c),
      text_pixels = (\<lambda>img txt org thickness i. False),
      saturate_cast_uchar = round_clamp\<rparr>"

text \<open>Frames of one grey level.\<close>

definition grey_frame :: "nat \<Rightarrow> nat \<Rightarrow> frame" where
  "grey_frame r c = \<lparr>rows = r, cols = c, data = replicate (r * c) (200, 200, 200)\<rparr>"

text \<open>The frame of a single pixel of that grey.\<close>

definition grey_pixel :: frame where
  "grey_pixel = \<lparr>rows = 1, cols = 1, data = [(200, 200, 200)]\<rparr>"

text \<open>A mask of 180 pixels, the first \<open>k\<close> of them set.\<close>

definition strip_mask :: "nat \<Rightarrow> mask" where
  "strip_mask k = \<lparr>rows = 1, cols = 180, data = replicate k 255 @ replicate (180 - k) 0\<rparr>"

text \<open>
  A scene of 40 by 40 pixels: 1500 pixels of a bright orange and 100 pixels of a medium
  grey, seen after a black frame, in a state where both counters stand at 2.
\<close>

definition flame_smoke_frame :: frame where
  "flame_smoke_frame =
     \<lparr>rows = 40, cols = 40,
      data = replicate 1500 (100, 220, 255) @ replicate 100 (150, 150, 150)\<rparr>"

definition dark_frame :: frame where
  "dark_frame = \<lparr>rows = 40, cols = 40, data = replicate 1600 (0, 0, 0)\<rparr>"

definition blank_mask :: mask where
  "blank_mask = \<lparr>rows = 40, cols = 40, data = replicate 1600 0\<rparr>"

definition armed_state :: loop_state where
  "armed_state =
     \<lparr>prevFrame = dark_frame, frameHistory = [blank_mask, blank_mask],
      consecutiveFireFrames = 2, consecutiveSmokeFrames = 2\<rparr>"

section \<open>Sizes and failures of the detectors\<close>

lemma Mat_default_empty: "empty_Mat Mat_default"
  by (simp add: empty_Mat_def Mat_default_def)

lemma map_mat_simps [simp]:
  "rows (map_mat f m) = rows m" "cols (map_mat f m) = cols m"
  "data (map_mat f m) = map f (data m)"
  by (simp_all add: map_mat_def)

lemma zip_mat_simps [simp]:
  "rows (zip_mat f a b) = rows a" "cols (zip_mat f a b) = cols a"
  "data (zip_mat f a b) = map2 f (data a) (data b)"
  by (simp_all add: zip_mat_def)

lemma morphologyEx_size [simp]:
  "rows (morphologyEx cv m op k) = rows m" "cols (morphologyEx cv m op k) = cols m"
  "length (data (morphologyEx cv m op k)) = length (data m)"
  by (simp_all add: morphologyEx_def)

lemma paint_size [simp]:
  "rows (paint sel colour img) = rows img" "cols (paint sel colour img) = cols img"
  "length (data (paint sel colour img)) = length (data img)"
  by (simp_all add: paint_def)

lemma same_size_map_mat [simp]: "same_size (map_mat f a) (map_mat g b) = same_size a b"
  by (simp add: same_size_def)

lemma detectPotentialFire_empty:
  "empty_Mat frame \<Longrightarrow> detectPotentialFire cv frame = Inl StsAssert"
  by (simp add: detectPotentialFire_def cvtColor_BGR2HSV_def)

lemma detectPotentialFire_nonempty:
  assumes "\<not> empty_Mat frame"
  shows "\<exists>m. detectPotentialFire cv frame = Inr m \<and> rows m = rows frame
           \<and> cols m = cols frame \<and> length (data m) = length (data frame)"
  using assms
  by (simp add: detectPotentialFire_def cvtColor_BGR2HSV_def cvtColor_BGR2GRAY_def
      bitwise_and_def same_size_def inRange_def threshold_def Let_def
      getStructuringElement_def)

lemma detectSmoke_empty:
  "empty_Mat frame \<or> empty_Mat prev \<Longrightarrow> detectSmoke cv frame prev = Inr Mat_default"
  by (simp add: detectSmoke_def)

lemma detectSmoke_same_size:
  assumes "\<not> empty_Mat frame" "\<not> empty_Mat prev" "same_size frame prev"
  shows "\<exists>m. detectSmoke cv frame prev = Inr m \<and> rows m = rows frame \<and> cols m = cols frame"
  using assms
  by (simp add: detectSmoke_def cvtColor_BGR2HSV_def cvtColor_BGR2GRAY_def absdiff_def
      bitwise_and_def same_size_def inRange_def threshold_def Let_def
      getStructuringElement_def)

lemma detectSmoke_mismatch:
  assumes "\<not> empty_Mat frame" "\<not> empty_Mat prev" "\<not> same_size frame prev"
  shows "detectSmoke cv frame prev = Inl StsUnmatchedSizes"
  using assms
  by (simp add: detectSmoke_def cvtColor_BGR2HSV_def cvtColor_BGR2GRAY_def absdiff_def)

section \<open>One iteration, taken apart\<close>

lemma scan_contours_size [simp]:
  "rows (snd (scan_contours cv cs (b, f))) = rows f"
  "cols (snd (scan_contours cv cs (b, f))) = cols f"
  by (induction cs arbitrary: b f) (simp_all add: drawContours_def)

lemma scan_contours_found:
  "fst (scan_contours cv cs (b, f)) \<longleftrightarrow>
     b \<or> (\<exists>c \<in> set cs. contour_area cv c > real_of_int smokeDetectionThreshold)"
  by (induction cs arbitrary: b f) auto

text \<open>What an iteration that returns has computed, variable by variable.\<close>

lemma loop_body_Inr:
  assumes "loop_body cv st frame = Inr it"
  shows "detectPotentialFire cv frame = Inr (potentialFire it)"
    and "detectSmoke cv frame (prevFrame st) = Inr (smokeMask it)"
    and "frameHistory (next_state it) = store_history (frameHistory st) (potentialFire it)"
    and "currentFireArea it = current_area (potentialFire it)"
    and "previousFireArea it = previous_area (frameHistory (next_state it))"
    and "significantFireGrowth it =
           significant_growth (currentFireArea it) (previousFireArea it)"
    and "smokeContours it = find_contours cv (smokeMask it) RETR_EXTERNAL CHAIN_APPROX_SIMPLE"
    and "significantSmoke it = fst (scan_contours cv (smokeContours it) (False, frame))"
    and "consecutiveFireFrames (next_state it) =
           update_counter
             (currentFireArea it > fireDetectionThreshold \<and> significantFireGrowth it)
             (consecutiveFireFrames st)"
    and "consecutiveSmokeFrames (next_state it) =
           update_counter (significantSmoke it) (consecutiveSmokeFrames st)"
    and "alert it = alert_condition (consecutiveFireFrames (next_state it))
                      (consecutiveSmokeFrames (next_state it))"
    and "\<exists>vis. cvtColor_GRAY2BGR (potentialFire it) = Inr vis \<and>
           addWeighted cv
             (if alert it
              then putText cv (snd (scan_contours cv (smokeContours it) (False, frame)))
                     ''FIRE ALERT!'' (10, 50) (0, 0, 255) 2
              else snd (scan_contours cv (smokeContours it) (False, frame)))
             0.7 vis 0.3 0 = Inr (shown it)"
    and "prevFrame (next_state it) = shown it"
  using assms
  by (auto simp add: loop_body_def Let_def split: sum.splits prod.splits)

text \<open>
  An iteration returns when the frame is not empty and the previous frame is empty or
  of the same size.
\<close>

lemma loop_body_total:
  assumes "\<not> empty_Mat frame"
    and "empty_Mat (prevFrame st) \<or> same_size frame (prevFrame st)"
  shows "\<exists>it. loop_body cv st frame = Inr it"
proof -
  obtain fire where fire: "detectPotentialFire cv frame = Inr fire"
    "rows fire = rows frame" "cols fire = cols frame"
    using detectPotentialFire_nonempty [OF assms(1)] by blast
  obtain smoke where smoke: "detectSmoke cv frame (prevFrame st) = Inr smoke"
    using detectSmoke_empty detectSmoke_same_size assms by blast
  have ne: "\<not> empty_Mat fire"
    using assms(1) fire by (simp add: empty_Mat_def)
  show ?thesis
    using fire smoke ne
    by (simp add: loop_body_def Let_def cvtColor_GRAY2BGR_def addWeighted_def same_size_def
        putText_def split_beta)
qed

section \<open>The instance on the sample frames\<close>

lemma plain_cv_simps:
  "bgr2hsv plain_cv = hsv_of_bgr" "bgr2gray plain_cv = gray_of_bgr"
  "morph_px plain_cv = (\<lambda>op k src i. data src ! i)"
  "find_contours plain_cv = frame_contour"
  "contour_area plain_cv = polygon_area"
  "saturate_cast_uchar plain_cv = round_clamp"
  by (simp_all add: plain_cv_def)

lemma morphologyEx_plain: "morphologyEx plain_cv m op k = m"
  by (simp add: morphologyEx_def plain_cv_simps map_nth)

lemma pixel_values:
  "hsv_of_bgr (100, 220, 255) = (23, 155, 255)" "gray_of_bgr (100, 220, 255) = 217"
  "hsv_of_bgr (150, 150, 150) = (0, 0, 150)" "gray_of_bgr (150, 150, 150) = 150"
  "hsv_of_bgr (200, 200, 200) = (0, 0, 200)" "gray_of_bgr (200, 200, 200) = 200"
  "gray_of_bgr (0, 0, 0) = 0"
  by (simp_all add: hsv_of_bgr_def gray_of_bgr_def)

lemma replicate_1600: "replicate 1600 x = replicate 1500 x @ replicate 100 x"
  by (simp add: replicate_add [symmetric])

lemma countNonZero_two_runs:
  "countNonZero \<lparr>rows = r, cols = c, data = replicate a x @ replicate b y\<rparr> =
     (if x \<noteq> 0 then int a else 0) + (if y \<noteq> 0 then int b else 0)"
  by (simp add: countNonZero_def)

lemma square_area: "polygon_area [(0, 0), (0, 39), (39, 39), (39, 0)] = 1521"
  by (simp add: polygon_area_def)

lemma grey_pixel_nonempty: "\<not> empty_Mat grey_pixel"
  by (simp add: grey_pixel_def empty_Mat_def)

lemma initial_prev_empty: "empty_Mat (prevFrame initial_state)"
  by (simp add: initial_state_def Mat_default_empty)

lemma flame_nonempty: "\<not> empty_Mat flame_smoke_frame"
  by (simp add: flame_smoke_frame_def empty_Mat_def)

lemma flame_smoke_fire:
  "detectPotentialFire plain_cv flame_smoke_frame =
     Inr \<lparr>rows = 40, cols = 40, data = replicate 1500 255 @ replicate 100 0\<rparr>"
  by (simp add: detectPotentialFire_def cvtColor_BGR2HSV_def cvtColor_BGR2GRAY_def
      bitwise_and_def same_size_def inRange_def threshold_def morphologyEx_plain
      empty_Mat_def flame_smoke_frame_def plain_cv_simps pixel_values zip_mat_def map_mat_def)

lemma flame_smoke_smoke:
  "detectSmoke plain_cv flame_smoke_frame dark_frame =
     Inr \<lparr>rows = 40, cols = 40, data = replicate 1500 0 @ replicate 100 255\<rparr>"
  by (simp add: detectSmoke_def cvtColor_BGR2HSV_def cvtColor_BGR2GRAY_def absdiff_def
      bitwise_and_def same_size_def inRange_def threshold_def morphologyEx_plain
      empty_Mat_def flame_smoke_frame_def dark_frame_def replicate_1600 plain_cv_simps
      pixel_values zip_mat_def map_mat_def)

text \<open>
  The iteration on the scene: it returns, the fire mask has 1500 set pixels against none
  in the oldest mask, the smoke mask yields one contour of area 1521, and both counters
  reach 3.
\<close>

lemma armed_run:
  "\<exists>it. loop_body plain_cv armed_state flame_smoke_frame = Inr it
     \<and> potentialFire it = \<lparr>rows = 40, cols = 40, data = replicate 1500 255 @ replicate 100 0\<rparr>
     \<and> smokeMask it = \<lparr>rows = 40, cols = 40, data = replicate 1500 0 @ replicate 100 255\<rparr>
     \<and> frameHistory (next_state it) = [blank_mask, blank_mask, potentialFire it]
     \<and> currentFireArea it = 1500 \<and> previousFireArea it = 0 \<and> significantFireGrowth it
     \<and> smokeContours it = [[(0, 0), (0, 39), (39, 39), (39, 0)]]
     \<and> significantSmoke it
     \<and> consecutiveFireFrames (next_state it) = 3
     \<and> consecutiveSmokeFrames (next_state it) = 3
     \<and> alert it"
proof -
  have "same_size flame_smoke_frame (prevFrame armed_state)"
    by (simp add: same_size_def flame_smoke_frame_def armed_state_def dark_frame_def)
  then obtain it where it: "loop_body plain_cv armed_state flame_smoke_frame = Inr it"
    using loop_body_total [OF flame_nonempty] by blast
  note parts = loop_body_Inr [OF it]
  have fire: "potentialFire it =
      \<lparr>rows = 40, cols = 40, data = replicate 1500 255 @ replicate 100 0\<rparr>"
    using parts(1) by (simp add: flame_smoke_fire)
  have smoke: "smokeMask it =
      \<lparr>rows = 40, cols = 40, data = replicate 1500 0 @ replicate 100 255\<rparr>"
    using parts(2) by (simp add: armed_state_def flame_smoke_smoke)
  have history: "frameHistory (next_state it) = [blank_mask, blank_mask, potentialFire it]"
    using parts(3) by (simp add: armed_state_def store_history_def HISTORY_SIZE_def)
  have cur: "currentFireArea it = 1500"
    using parts(4) by (simp add: fire current_area_def countNonZero_two_runs)
  have prv: "previousFireArea it = 0"
    using parts(5) by (simp add: history previous_area_def blank_mask_def countNonZero_def)
  have growth: "significantFireGrowth it"
    using parts(6) by (simp add: cur prv significant_growth_def fireGrowthThreshold_def)
  have contours: "smokeContours it = [[(0, 0), (0, 39), (39, 39), (39, 0)]]"
    using parts(7) by (simp add: smoke plain_cv_simps frame_contour_def countNonZero_two_runs)
  have sig: "significantSmoke it"
    using parts(8)
    by (simp add: contours plain_cv_simps square_area smokeDetectionThreshold_def)
  have cf: "consecutiveFireFrames (next_state it) = 3"
    using parts(9)
    by (simp add: cur growth armed_state_def update_counter_def fireDetectionThreshold_def)
  have cs: "consecutiveSmokeFrames (next_state it) = 3"
    using parts(10) by (simp add: sig armed_state_def update_counter_def)
  have "alert it"
    using parts(11) by (simp add: cf cs alert_condition_def)
  with it fire smoke history cur prv growth contours sig cf cs show ?thesis
    by blast
qed

section \<open>The history window\<close>

lemma store_history_drop:
  "store_history (drop (length ms - HISTORY_SIZE) ms) m =
     drop (length (ms @ [m]) - HISTORY_SIZE) (ms @ [m])"
proof (cases "length ms < 10")
  case True
  then show ?thesis by (simp add: store_history_def HISTORY_SIZE_def)
next
  case False
  then have "length ms - 10 < length ms"
    by simp
  then have "tl (drop (length ms - 10) ms @ [m]) = drop (Suc (length ms - 10)) ms @ [m]"
    by (simp add: drop_Suc tl_drop)
  moreover from False have "Suc (length ms - 10) = length ms - 9"
    by arith
  ultimately show ?thesis
    using False by (simp add: store_history_def HISTORY_SIZE_def)
qed

lemma foldl_store_history:
  "foldl store_history [] ms = drop (length ms - HISTORY_SIZE) ms"
  by (induction ms rule: rev_induct) (simp_all add: store_history_drop)

text \<open>
  Claim C5. The history starts empty and changes only by \<open>store_history\<close>. After any
  sequence of pushes it holds at most \<open>HISTORY_SIZE = 10\<close> masks, namely the last ten
  pushed, in the order pushed: a push appends at the end, and a push onto a full window
  drops exactly the oldest mask. Each iteration of the loop pushes its fire mask.
\<close>

theorem history_window_bounded:
  "length (foldl store_history [] ms) \<le> HISTORY_SIZE \<and> HISTORY_SIZE = 10
   \<and> foldl store_history [] ms = drop (length ms - HISTORY_SIZE) ms
   \<and> (length h < HISTORY_SIZE \<longrightarrow> store_history h m = h @ [m])
   \<and> (length h = HISTORY_SIZE \<longrightarrow>
        store_history h m = tl h @ [m] \<and> length (store_history h m) = HISTORY_SIZE)
   \<and> (loop_body cv st frame = Inr it \<longrightarrow>
        frameHistory (next_state it) = store_history (frameHistory st) (potentialFire it))"
proof -
  have "length (foldl store_history [] ms) \<le> HISTORY_SIZE"
    by (simp add: foldl_store_history)
  moreover have "length h < HISTORY_SIZE \<longrightarrow> store_history h m = h @ [m]"
    by (simp add: store_history_def)
  moreover have "length h = HISTORY_SIZE \<longrightarrow>
      store_history h m = tl h @ [m] \<and> length (store_history h m) = HISTORY_SIZE"
    by (cases h) (simp_all add: store_history_def HISTORY_SIZE_def)
  moreover have "loop_body cv st frame = Inr it \<longrightarrow>
      frameHistory (next_state it) = store_history (frameHistory st) (potentialFire it)"
    using loop_body_Inr(3) [of cv st frame it] by simp
  ultimately show ?thesis
    by (simp add: foldl_store_history HISTORY_SIZE_def)
qed

text \<open>
  Twelve masks pushed leave the last ten; a push onto ten masks drops the first; a push
  onto three keeps all; the iteration on the sample scene appends its fire mask.
\<close>

theorem history_window_bounded_witness:
  "foldl store_history [] (map strip_mask [0, 1, 2, 3, 4, 5, 6, 7, 8, 9, 10, 11])
     = map strip_mask [2, 3, 4, 5, 6, 7, 8, 9, 10, 11]
   \<and> store_history (map strip_mask [0, 1, 2, 3, 4, 5, 6, 7, 8, 9]) (strip_mask 10)
     = map strip_mask [1, 2, 3, 4, 5, 6, 7, 8, 9, 10]
   \<and> store_history (map strip_mask [0, 1, 2]) (strip_mask 3) = map strip_mask [0, 1, 2, 3]
   \<and> (\<exists>it. loop_body plain_cv armed_state flame_smoke_frame = Inr it
         \<and> frameHistory (next_state it) = [blank_mask, blank_mask, potentialFire it])"
proof -
  obtain it where it: "loop_body plain_cv armed_state flame_smoke_frame = Inr it"
    using armed_run by blast
  note full = history_window_bounded [of "map strip_mask [0, 1, 2, 3, 4, 5, 6, 7, 8, 9, 10, 11]"
        "map strip_mask [0, 1, 2, 3, 4, 5, 6, 7, 8, 9]" "strip_mask 10"
        plain_cv armed_state flame_smoke_frame it]
  note part = history_window_bounded [of "[]" "map strip_mask [0, 1, 2]" "strip_mask 3"
        plain_cv armed_state flame_smoke_frame it]
  have "foldl store_history [] (map strip_mask [0, 1, 2, 3, 4, 5, 6, 7, 8, 9, 10, 11])
      = map strip_mask [2, 3, 4, 5, 6, 7, 8, 9, 10, 11]"
    using full by (simp add: HISTORY_SIZE_def)
  moreover have "store_history (map strip_mask [0, 1, 2, 3, 4, 5, 6, 7, 8, 9]) (strip_mask 10)
      = map strip_mask [1, 2, 3, 4, 5, 6, 7, 8, 9, 10]"
    using full by (simp add: HISTORY_SIZE_def)
  moreover have "store_history (map strip_mask [0, 1, 2]) (strip_mask 3)
      = map strip_mask [0, 1, 2, 3]"
    using part by (simp add: HISTORY_SIZE_def)
  moreover have "frameHistory (next_state it) = [blank_mask, blank_mask, potentialFire it]"
    using full it by (simp add: armed_state_def store_history_def HISTORY_SIZE_def)
  ultimately show ?thesis
    using it by auto
qed

text \<open>
  With no previous frame the smoke detector hands back the empty matrix; when contour
  tracing finds nothing in it, the iteration sees no smoke and the smoke counter is 0.
\<close>

lemma first_iteration_smoke:
  assumes "loop_body cv st frame = Inr it"
    and "empty_Mat (prevFrame st)"
    and "find_contours cv Mat_default RETR_EXTERNAL CHAIN_APPROX_SIMPLE = []"
  shows "smokeMask it = Mat_default" and "smokeContours it = []"
    and "\<not> significantSmoke it" and "consecutiveSmokeFrames (next_state it) = 0"
proof -
  note parts = loop_body_Inr [OF assms(1)]
  show mask: "smokeMask it = Mat_default"
    using parts(2) assms(2) by (simp add: detectSmoke_empty)
  show contours: "smokeContours it = []"
    using parts(7) assms(3) by (simp add: mask)
  show quiet: "\<not> significantSmoke it"
    using parts(8) by (simp add: contours)
  show "consecutiveSmokeFrames (next_state it) = 0"
    using parts(10) quiet by (simp add: update_counter_def)
qed

lemma dark_pixel: "hsv_of_bgr (0, 0, 0) = (0, 0, 0)"
  by (simp add: hsv_of_bgr_def)

lemma dark_fire: "detectPotentialFire plain_cv dark_frame = Inr blank_mask"
  by (simp add: detectPotentialFire_def cvtColor_BGR2HSV_def cvtColor_BGR2GRAY_def
      bitwise_and_def same_size_def inRange_def threshold_def morphologyEx_plain
      empty_Mat_def dark_frame_def blank_mask_def plain_cv_simps pixel_values dark_pixel
      zip_mat_def map_mat_def)

lemma dark_smoke: "detectSmoke plain_cv dark_frame dark_frame = Inr blank_mask"
  by (simp add: detectSmoke_def cvtColor_BGR2HSV_def cvtColor_BGR2GRAY_def absdiff_def
      bitwise_and_def same_size_def inRange_def threshold_def morphologyEx_plain
      empty_Mat_def dark_frame_def blank_mask_def plain_cv_simps pixel_values dark_pixel
      zip_mat_def map_mat_def)

text \<open>
  The iteration on the black frame in the same state: it returns, no fire, no smoke, both
  counters fall from 2 back to 0.
\<close>

lemma quiet_run:
  "\<exists>it. loop_body plain_cv armed_state dark_frame = Inr it
     \<and> currentFireArea it = 0 \<and> smokeContours it = [] \<and> \<not> significantSmoke it
     \<and> consecutiveFireFrames (next_state it) = 0
     \<and> consecutiveSmokeFrames (next_state it) = 0
     \<and> \<not> alert it"
proof -
  have "\<not> empty_Mat dark_frame" "same_size dark_frame (prevFrame armed_state)"
    by (simp_all add: same_size_def empty_Mat_def armed_state_def dark_frame_def)
  then obtain it where it: "loop_body plain_cv armed_state dark_frame = Inr it"
    using loop_body_total by blast
  note parts = loop_body_Inr [OF it]
  have fire: "potentialFire it = blank_mask"
    using parts(1) by (simp add: dark_fire)
  have smoke: "smokeMask it = blank_mask"
    using parts(2) by (simp add: armed_state_def dark_smoke)
  have cur: "currentFireArea it = 0"
    using parts(4) by (simp add: fire current_area_def blank_mask_def countNonZero_def)
  have contours: "smokeContours it = []"
    using parts(7)
    by (simp add: smoke plain_cv_simps frame_contour_def blank_mask_def countNonZero_def)
  have sig: "\<not> significantSmoke it"
    using parts(8) by (simp add: contours)
  have cf: "consecutiveFireFrames (next_state it) = 0"
    using parts(9) by (simp add: cur update_counter_def fireDetectionThreshold_def)
  have cs: "consecutiveSmokeFrames (next_state it) = 0"
    using parts(10) by (simp add: sig update_counter_def)
  have "\<not> alert it"
    using parts(11) by (simp add: cf cs alert_condition_def)
  with it cur contours sig cf cs show ?thesis
    by blast
qed

section \<open>The alert and the two counters\<close>

text \<open>Every iteration the loop records is a result of the loop body.\<close>

lemma main_loop_iterations:
  "it \<in> set (fst (main_loop cv st inputs)) \<Longrightarrow> \<exists>st' frame. loop_body cv st' frame = Inr it"
proof (induction inputs arbitrary: st)
  case Nil
  then show ?case by simp
next
  case (Cons x rest)
  obtain frame key where x: "x = (frame, key)" by (cases x)
  show ?case
  proof (cases "loop_body cv st frame")
    case (Inl e)
    with Cons.prems x show ?thesis by (simp split: if_splits)
  next
    case (Inr it')
    show ?thesis
    proof (cases "it = it'")
      case True
      with Inr show ?thesis by blast
    next
      case False
      with Cons.prems x Inr have "it \<in> set (fst (main_loop cv (next_state it') rest))"
        by (auto split: if_splits prod.splits)
      then show ?thesis by (rule Cons.IH)
    qed
  qed
qed

text \<open>
  Claim C1. In every iteration the alert is raised exactly when both counters, as just
  updated, are at least 3: it is not raised while either is below 3, and it is raised on
  the first frame on which both have reached 3. This holds for one iteration from any
  state and for every iteration of a run of the loop.
\<close>

theorem alert_iff_both_streaks:
  "(loop_body cv st frame = Inr it \<longrightarrow>
      (alert it \<longleftrightarrow> 3 \<le> sint (consecutiveFireFrames (next_state it))
                  \<and> 3 \<le> sint (consecutiveSmokeFrames (next_state it))))
   \<and> (\<forall>it \<in> set (fst (main_loop cv st inputs)).
        alert it \<longleftrightarrow> 3 \<le> sint (consecutiveFireFrames (next_state it))
                  \<and> 3 \<le> sint (consecutiveSmokeFrames (next_state it)))"
proof -
  have step: "alert it \<longleftrightarrow> 3 \<le> sint (consecutiveFireFrames (next_state it))
                  \<and> 3 \<le> sint (consecutiveSmokeFrames (next_state it))"
    if "loop_body cv st' frame' = Inr it" for st' frame' it
    using loop_body_Inr(11) [OF that] by (simp add: alert_condition_def)
  show ?thesis
    using step main_loop_iterations [of _ cv st inputs] by blast
qed

text \<open>
  On the sample scene both counters go from 2 to 3 and the alert is raised; on the black
  frame both fall to 0 and it is not.
\<close>

theorem alert_iff_both_streaks_witness:
  "\<exists>it quiet.
     fst (main_loop plain_cv armed_state [(flame_smoke_frame, - 1)]) = [it]
     \<and> alert it
     \<and> sint (consecutiveFireFrames (next_state it)) = 3
     \<and> sint (consecutiveSmokeFrames (next_state it)) = 3
     \<and> loop_body plain_cv armed_state dark_frame = Inr quiet
     \<and> sint (consecutiveFireFrames (next_state quiet)) = 0
     \<and> \<not> alert quiet"
proof -
  obtain it where it: "loop_body plain_cv armed_state flame_smoke_frame = Inr it"
    and c: "consecutiveFireFrames (next_state it) = 3"
      "consecutiveSmokeFrames (next_state it) = 3"
    using armed_run by blast
  obtain quiet where quiet: "loop_body plain_cv armed_state dark_frame = Inr quiet"
    and q: "consecutiveFireFrames (next_state quiet) = 0"
    using quiet_run by blast
  have run: "fst (main_loop plain_cv armed_state [(flame_smoke_frame, - 1)]) = [it]"
    using it flame_nonempty by simp
  have "alert it"
    using alert_iff_both_streaks [of plain_cv armed_state flame_smoke_frame it
        "[(flame_smoke_frame, - 1)]"] it c
    by simp
  moreover have "\<not> alert quiet"
    using alert_iff_both_streaks [of plain_cv armed_state dark_frame quiet "[]"] quiet q
    by simp
  ultimately show ?thesis
    using run c quiet q by simp
qed

text \<open>Below \<open>INT_MAX\<close> the increment of a counter does not wrap.\<close>

lemma sint_succ_32:
  fixes n :: "32 word"
  assumes "sint n < 2147483647"
  shows "sint (n + 1) = sint n + 1"
proof -
  have "- 2147483648 \<le> sint n"
    using sint_ge [of n] by simp
  with assms show ?thesis
    by (simp add: sint_word_ariths signed_take_bit_int_eq_self)
qed

text \<open>
  Claim C4. In every iteration the fire counter becomes the old counter plus one when the
  fire area exceeds \<open>fireDetectionThreshold\<close> and the growth is significant, and
  becomes 0 otherwise; the smoke counter becomes the old counter plus one when some
  contour has an area above \<open>smokeDetectionThreshold\<close>, and 0 otherwise. The increment is
  that of a 32-bit \<^verbatim>\<open>int\<close>: read as a number it adds exactly 1 while the counter is
  below 2147483647. A counter that went up twice and then meets a frame that does not
  qualify is 0, not one less.
\<close>

theorem streak_counters:
  "(loop_body cv st frame = Inr it \<longrightarrow>
      consecutiveFireFrames (next_state it) =
        (if currentFireArea it > fireDetectionThreshold \<and> significantFireGrowth it
         then consecutiveFireFrames st + 1 else 0)
      \<and> consecutiveSmokeFrames (next_state it) =
        (if significantSmoke it then consecutiveSmokeFrames st + 1 else 0)
      \<and> (significantSmoke it \<longleftrightarrow>
           (\<exists>c \<in> set (smokeContours it).
              contour_area cv c > real_of_int smokeDetectionThreshold)))
   \<and> fireDetectionThreshold = 100
   \<and> (sint n < 2147483647 \<longrightarrow> sint (update_counter True n) = sint n + 1)
   \<and> update_counter False n = 0
   \<and> update_counter False (update_counter True (update_counter True n)) = 0"
proof -
  have "sint n < 2147483647 \<longrightarrow> sint (update_counter True n) = sint n + 1"
    by (simp add: update_counter_def sint_succ_32)
  moreover have "consecutiveFireFrames (next_state it) =
        (if currentFireArea it > fireDetectionThreshold \<and> significantFireGrowth it
         then consecutiveFireFrames st + 1 else 0)
      \<and> consecutiveSmokeFrames (next_state it) =
        (if significantSmoke it then consecutiveSmokeFrames st + 1 else 0)
      \<and> (significantSmoke it \<longleftrightarrow>
           (\<exists>c \<in> set (smokeContours it).
              contour_area cv c > real_of_int smokeDetectionThreshold))"
    if "loop_body cv st frame = Inr it"
    using loop_body_Inr(8,9,10) [OF that]
    by (simp add: update_counter_def scan_contours_found)
  ultimately show ?thesis
    by (simp add: update_counter_def fireDetectionThreshold_def)
qed

text \<open>
  On the sample scene both counters go from 2 to 3; on the black frame, from the same
  state, both go to 0.
\<close>

theorem streak_counters_witness:
  "\<exists>it quiet.
     loop_body plain_cv armed_state flame_smoke_frame = Inr it
     \<and> consecutiveFireFrames armed_state = 2 \<and> consecutiveSmokeFrames armed_state = 2
     \<and> consecutiveFireFrames (next_state it) = 3
     \<and> consecutiveSmokeFrames (next_state it) = 3
     \<and> loop_body plain_cv armed_state dark_frame = Inr quiet
     \<and> consecutiveFireFrames (next_state quiet) = 0
     \<and> consecutiveSmokeFrames (next_state quiet) = 0
     \<and> sint (update_counter True 2) = 3
     \<and> update_counter False (update_counter True (update_counter True 5)) = 0"
proof -
  obtain it where it: "loop_body plain_cv armed_state flame_smoke_frame = Inr it"
    and up: "currentFireArea it = 1500" "significantFireGrowth it" "significantSmoke it"
    using armed_run by blast
  obtain quiet where quiet: "loop_body plain_cv armed_state dark_frame = Inr quiet"
    and down: "currentFireArea quiet = 0" "\<not> significantSmoke quiet"
    using quiet_run by blast
  have start: "consecutiveFireFrames armed_state = 2" "consecutiveSmokeFrames armed_state = 2"
    by (simp_all add: armed_state_def)
  have "consecutiveFireFrames (next_state it) = 3 \<and> consecutiveSmokeFrames (next_state it) = 3
      \<and> sint (update_counter True 2) = 3
      \<and> update_counter False (update_counter True (update_counter True 5)) = 0"
    using streak_counters [of plain_cv armed_state flame_smoke_frame it 2] it up start
    by (simp add: fireDetectionThreshold_def update_counter_def)
  moreover have "consecutiveFireFrames (next_state quiet) = 0
      \<and> consecutiveSmokeFrames (next_state quiet) = 0"
    using streak_counters [of plain_cv armed_state dark_frame quiet 2] quiet down
    by simp
  ultimately show ?thesis
    using it quiet start by simp
qed

section \<open>Growth of the fire area\<close>

lemma countNonZero_strip_mask: "countNonZero (strip_mask k) = int k"
  by (simp add: strip_mask_def countNonZero_def)

text \<open>
  Claim C2. In every iteration \<open>currentFireArea\<close> is the number of set pixels of the fire
  mask of the frame, \<open>previousFireArea\<close> is the number of set pixels of the oldest mask of
  the history (as it stands after the push) when the history holds more than one mask and
  0 otherwise, and the growth is significant exactly when their difference exceeds
  \<open>fireGrowthThreshold = 50\<close>. For masks of 0, 10, 60, 120 and 180 set pixels pushed in
  this order, the evaluation at the last one compares 180 with 0 and reports growth.
\<close>

theorem growth_rule:
  "(loop_body cv st frame = Inr it \<longrightarrow>
      currentFireArea it = countNonZero (potentialFire it)
      \<and> previousFireArea it =
          (if length (frameHistory (next_state it)) > 1
           then countNonZero (hd (frameHistory (next_state it))) else 0)
      \<and> (significantFireGrowth it \<longleftrightarrow>
           currentFireArea it - previousFireArea it > fireGrowthThreshold))
   \<and> fireGrowthThreshold = 50
   \<and> (countNonZero m1 = 0 \<and> countNonZero m2 = 10 \<and> countNonZero m3 = 60
        \<and> countNonZero m4 = 120 \<and> countNonZero m5 = 180 \<longrightarrow>
       (let history = foldl store_history [] [m1, m2, m3, m4, m5]
        in current_area m5 = 180 \<and> previous_area history = 0
           \<and> current_area m5 - previous_area history = 180
           \<and> significant_growth (current_area m5) (previous_area history)))"
proof -
  have "currentFireArea it = countNonZero (potentialFire it)
      \<and> previousFireArea it =
          (if length (frameHistory (next_state it)) > 1
           then countNonZero (hd (frameHistory (next_state it))) else 0)
      \<and> (significantFireGrowth it \<longleftrightarrow>
           currentFireArea it - previousFireArea it > fireGrowthThreshold)"
    if "loop_body cv st frame = Inr it"
    using loop_body_Inr(4,5,6) [OF that]
    by (simp add: current_area_def previous_area_def significant_growth_def)
  moreover have "foldl store_history [] [m1, m2, m3, m4, m5] = [m1, m2, m3, m4, m5]"
    by (simp add: store_history_def HISTORY_SIZE_def)
  ultimately show ?thesis
    by (simp add: current_area_def previous_area_def significant_growth_def
        fireGrowthThreshold_def)
qed

text \<open>
  The sample scene has 1500 set pixels against none in the oldest mask; the five strip
  masks have the set-pixel counts of the claim.
\<close>

theorem growth_rule_witness:
  "(\<exists>it. loop_body plain_cv armed_state flame_smoke_frame = Inr it
      \<and> currentFireArea it = 1500 \<and> previousFireArea it = 0 \<and> significantFireGrowth it)
   \<and> countNonZero (strip_mask 0) = 0 \<and> countNonZero (strip_mask 10) = 10
   \<and> countNonZero (strip_mask 60) = 60 \<and> countNonZero (strip_mask 120) = 120
   \<and> countNonZero (strip_mask 180) = 180
   \<and> previous_area (foldl store_history []
        [strip_mask 0, strip_mask 10, strip_mask 60, strip_mask 120, strip_mask 180]) = 0
   \<and> significant_growth (current_area (strip_mask 180))
        (previous_area (foldl store_history []
           [strip_mask 0, strip_mask 10, strip_mask 60, strip_mask 120, strip_mask 180]))"
proof -
  obtain it where it: "loop_body plain_cv armed_state flame_smoke_frame = Inr it"
    and fire: "potentialFire it =
      \<lparr>rows = 40, cols = 40, data = replicate 1500 255 @ replicate 100 0\<rparr>"
    and history: "frameHistory (next_state it) = [blank_mask, blank_mask, potentialFire it]"
    using armed_run by blast
  note rule = growth_rule [of plain_cv armed_state flame_smoke_frame it
      "strip_mask 0" "strip_mask 10" "strip_mask 60" "strip_mask 120" "strip_mask 180"]
  have blank: "countNonZero blank_mask = 0"
    by (simp add: blank_mask_def countNonZero_def)
  have "currentFireArea it = 1500 \<and> previousFireArea it = 0 \<and> significantFireGrowth it"
    using rule it by (simp add: fire history countNonZero_two_runs blank)
  moreover have "previous_area (foldl store_history []
        [strip_mask 0, strip_mask 10, strip_mask 60, strip_mask 120, strip_mask 180]) = 0
   \<and> significant_growth (current_area (strip_mask 180))
        (previous_area (foldl store_history []
           [strip_mask 0, strip_mask 10, strip_mask 60, strip_mask 120, strip_mask 180]))"
    using rule by (auto simp add: countNonZero_strip_mask Let_def)
  ultimately show ?thesis
    using it by (auto simp add: countNonZero_strip_mask)
qed

section \<open>Smoke regions\<close>

lemma scan_contours_drawn:
  "snd (scan_contours cv cs (b, f)) =
     foldl (\<lambda>img c. drawContours cv img c (0, 255, 0) 2) f
       (filter (\<lambda>c. contour_area cv c > real_of_int smokeDetectionThreshold) cs)"
  by (induction cs arbitrary: b f) simp_all

text \<open>
  Claim C6. In every iteration the contours examined are those that
  \<^verbatim>\<open>findContours\<close> returns for the smoke mask in the mode \<open>RETR_EXTERNAL\<close>, the outermost
  boundaries only; smoke is significant exactly when one of them has an area above
  \<open>smokeDetectionThreshold = 1000\<close>; and the contours drawn on the frame are exactly
  those with such an area, in order.
\<close>

theorem region_filter:
  "(loop_body cv st frame = Inr it \<longrightarrow>
      smokeContours it = find_contours cv (smokeMask it) RETR_EXTERNAL CHAIN_APPROX_SIMPLE
      \<and> (significantSmoke it \<longleftrightarrow>
           (\<exists>c \<in> set (smokeContours it).
              contour_area cv c > real_of_int smokeDetectionThreshold)))
   \<and> smokeDetectionThreshold = 1000
   \<and> (fst (scan_contours cv cs (False, f)) \<longleftrightarrow>
        (\<exists>c \<in> set cs. contour_area cv c > real_of_int smokeDetectionThreshold))
   \<and> snd (scan_contours cv cs (False, f)) =
        foldl (\<lambda>img c. drawContours cv img c (0, 255, 0) 2) f
          (filter (\<lambda>c. contour_area cv c > real_of_int smokeDetectionThreshold) cs)"
proof -
  have "smokeContours it = find_contours cv (smokeMask it) RETR_EXTERNAL CHAIN_APPROX_SIMPLE
      \<and> (significantSmoke it \<longleftrightarrow>
           (\<exists>c \<in> set (smokeContours it).
              contour_area cv c > real_of_int smokeDetectionThreshold))"
    if "loop_body cv st frame = Inr it"
    using loop_body_Inr(7,8) [OF that] by (simp add: scan_contours_found)
  then show ?thesis
    using scan_contours_drawn [of cv cs False f]
    by (simp add: scan_contours_found smokeDetectionThreshold_def)
qed

text \<open>
  The smoke mask of the sample scene has one outer contour, of area 1521, and smoke is
  significant; the black frame has none. Of a square of area 1521 and a square of area
  1000, only the first counts and only the first is drawn.
\<close>

theorem region_filter_witness:
  "(\<exists>it quiet.
      loop_body plain_cv armed_state flame_smoke_frame = Inr it
      \<and> smokeContours it = [[(0, 0), (0, 39), (39, 39), (39, 0)]]
      \<and> contour_area plain_cv [(0, 0), (0, 39), (39, 39), (39, 0)] = 1521
      \<and> significantSmoke it
      \<and> loop_body plain_cv armed_state dark_frame = Inr quiet
      \<and> smokeContours quiet = []
      \<and> \<not> significantSmoke quiet)
   \<and> contour_area plain_cv [(0, 0), (0, 25), (40, 25), (40, 0)] = 1000
   \<and> scan_contours plain_cv
        [[(0, 0), (0, 25), (40, 25), (40, 0)], [(0, 0), (0, 39), (39, 39), (39, 0)]]
        (False, dark_frame)
      = (True, drawContours plain_cv dark_frame [(0, 0), (0, 39), (39, 39), (39, 0)]
                 (0, 255, 0) 2)"
proof -
  obtain it where it: "loop_body plain_cv armed_state flame_smoke_frame = Inr it"
    and contours: "smokeContours it = [[(0, 0), (0, 39), (39, 39), (39, 0)]]"
    using armed_run by blast
  obtain quiet where quiet: "loop_body plain_cv armed_state dark_frame = Inr quiet"
    and none: "smokeContours quiet = []"
    using quiet_run by blast
  have area: "contour_area plain_cv [(0, 0), (0, 39), (39, 39), (39, 0)] = 1521"
    "contour_area plain_cv [(0, 0), (0, 25), (40, 25), (40, 0)] = 1000"
    by (simp_all add: plain_cv_simps polygon_area_def)
  note busy = region_filter [of plain_cv armed_state flame_smoke_frame it
      "[[(0, 0), (0, 25), (40, 25), (40, 0)], [(0, 0), (0, 39), (39, 39), (39, 0)]]" dark_frame]
  note calm = region_filter [of plain_cv armed_state dark_frame quiet "[]" dark_frame]
  have "significantSmoke it"
    using busy it by (simp add: contours area)
  moreover have "\<not> significantSmoke quiet"
    using calm quiet by (simp add: none)
  moreover have "scan_contours plain_cv
        [[(0, 0), (0, 25), (40, 25), (40, 0)], [(0, 0), (0, 39), (39, 39), (39, 0)]]
        (False, dark_frame)
      = (True, drawContours plain_cv dark_frame [(0, 0), (0, 39), (39, 39), (39, 0)]
                 (0, 255, 0) 2)"
    using busy by (simp add: area prod_eq_iff)
  ultimately show ?thesis
    using it quiet contours none area by simp
qed

section \<open>The smoke detector without a usable previous frame\<close>

lemma grey_frame_simps [simp]:
  "rows (grey_frame r c) = r" "cols (grey_frame r c) = c"
  "data (grey_frame r c) = replicate (r * c) (200, 200, 200)"
  by (simp_all add: grey_frame_def)

lemma Mat_default_simps [simp]:
  "rows Mat_default = 0" "cols Mat_default = 0" "data Mat_default = []"
  by (simp_all add: Mat_default_def)

text \<open>
  Claim C3, as the code has it. When the previous frame is absent (empty),
  \<open>detectSmoke\<close> returns without an error, and what it returns is the empty matrix
  \<^verbatim>\<open>cv::Mat()\<close>: no rows, no columns, no pixel, hence no set pixel. It is not a mask of
  the dimensions of the current frame.
\<close>

theorem detectSmoke_no_previous:
  "empty_Mat prev \<Longrightarrow>
     detectSmoke cv frame prev = Inr Mat_default
     \<and> rows (Mat_default :: mask) = 0 \<and> cols (Mat_default :: mask) = 0
     \<and> all_zero Mat_default"
  by (simp add: detectSmoke_empty all_zero_def)

theorem detectSmoke_no_previous_witness:
  "empty_Mat (Mat_default :: frame)
   \<and> detectSmoke plain_cv (grey_frame 2 3) Mat_default = Inr Mat_default
   \<and> detectSmoke plain_cv flame_smoke_frame Mat_default = Inr Mat_default"
  using detectSmoke_no_previous [of Mat_default plain_cv "grey_frame 2 3"]
    detectSmoke_no_previous [of Mat_default plain_cv flame_smoke_frame]
  by (simp add: Mat_default_empty)

text \<open>
  The claim as stated fails on a frame of 2 by 3 pixels: the mask returned has no rows
  and no columns.
\<close>

theorem detectSmoke_no_previous_counterexample:
  "detectSmoke plain_cv (grey_frame 2 3) Mat_default = Inr Mat_default
   \<and> rows (Mat_default :: mask) \<noteq> rows (grey_frame 2 3)
   \<and> cols (Mat_default :: mask) \<noteq> cols (grey_frame 2 3)"
  by (simp add: detectSmoke_empty Mat_default_empty)

text \<open>
  Claim C9, as the code has it. \<open>detectSmoke\<close> compares no dimensions. For a current
  and a previous frame that are both not empty and differ in size, \<^verbatim>\<open>absdiff\<close> raises
  the size-mismatch exception of OpenCV; the iteration fails with it, and since nothing
  catches it the loop ends there. The degraded result is returned only for an empty
  frame.
\<close>

theorem detectSmoke_size_mismatch:
  "\<not> empty_Mat frame \<Longrightarrow> \<not> empty_Mat (prevFrame st) \<Longrightarrow>
   \<not> same_size frame (prevFrame st) \<Longrightarrow>
     detectSmoke cv frame (prevFrame st) = Inl StsUnmatchedSizes
     \<and> loop_body cv st frame = Inl StsUnmatchedSizes
     \<and> main_loop cv st ((frame, key) # rest) = ([], Uncaught StsUnmatchedSizes)"
proof -
  assume ne: "\<not> empty_Mat frame" and pe: "\<not> empty_Mat (prevFrame st)"
    and diff: "\<not> same_size frame (prevFrame st)"
  have smoke: "detectSmoke cv frame (prevFrame st) = Inl StsUnmatchedSizes"
    using ne pe diff by (rule detectSmoke_mismatch)
  obtain fire where "detectPotentialFire cv frame = Inr fire"
    using detectPotentialFire_nonempty [OF ne] by blast
  then have body: "loop_body cv st frame = Inl StsUnmatchedSizes"
    by (simp add: loop_body_def smoke)
  show ?thesis
    using ne smoke body by simp
qed

theorem detectSmoke_size_mismatch_witness:
  "\<not> empty_Mat (grey_frame 2 3) \<and> \<not> empty_Mat (grey_frame 2 2)
   \<and> \<not> same_size (grey_frame 2 3) (grey_frame 2 2)
   \<and> detectSmoke plain_cv (grey_frame 2 3) (grey_frame 2 2) = Inl StsUnmatchedSizes
   \<and> main_loop plain_cv (initial_state\<lparr>prevFrame := grey_frame 2 2\<rparr>)
        [(grey_frame 2 3, - 1), (grey_frame 2 3, - 1)]
      = ([], Uncaught StsUnmatchedSizes)"
  using detectSmoke_size_mismatch [of "grey_frame 2 3"
      "initial_state\<lparr>prevFrame := grey_frame 2 2\<rparr>" plain_cv "- 1"
      "[(grey_frame 2 3, - 1)]"]
  by (simp add: empty_Mat_def same_size_def)

text \<open>
  The claim as stated fails on a frame of 2 by 3 pixels after one of 2 by 2: the result
  is the exception, where a missing previous frame gives the empty mask.
\<close>

theorem detectSmoke_size_mismatch_counterexample:
  "\<not> same_size (grey_frame 2 3) (grey_frame 2 2)
   \<and> detectSmoke plain_cv (grey_frame 2 3) (grey_frame 2 2) = Inl StsUnmatchedSizes
   \<and> detectSmoke plain_cv (grey_frame 2 3) Mat_default = Inr Mat_default
   \<and> detectSmoke plain_cv (grey_frame 2 3) (grey_frame 2 2)
       \<noteq> detectSmoke plain_cv (grey_frame 2 3) Mat_default"
  by (simp add: detectSmoke_empty Mat_default_empty detectSmoke_mismatch empty_Mat_def
      same_size_def)

section \<open>The fire detector\<close>

text \<open>
  Claim C8, as the code has it. For every frame that is not empty \<open>detectPotentialFire\<close>
  returns a mask with the rows, the columns and the number of pixels of the frame. For
  an empty frame it does not return an empty mask: \<^verbatim>\<open>cvtColor\<close> raises its assertion.
  The loop never calls it with one, because it leaves at an empty frame first.
\<close>

theorem detectPotentialFire_result:
  "(\<not> empty_Mat frame \<longrightarrow>
      (\<exists>m. detectPotentialFire cv frame = Inr m \<and> rows m = rows frame
         \<and> cols m = cols frame \<and> length (data m) = length (data frame)))
   \<and> (empty_Mat frame \<longrightarrow>
        detectPotentialFire cv frame = Inl StsAssert
        \<and> main_loop cv st ((frame, key) # rest) = ([], EndOfStream))"
  using detectPotentialFire_nonempty [of frame cv] detectPotentialFire_empty [of frame cv]
  by simp

theorem detectPotentialFire_result_witness:
  "\<not> empty_Mat flame_smoke_frame
   \<and> detectPotentialFire plain_cv flame_smoke_frame =
       Inr \<lparr>rows = 40, cols = 40, data = replicate 1500 255 @ replicate 100 0\<rparr>
   \<and> rows flame_smoke_frame = 40 \<and> cols flame_smoke_frame = 40
   \<and> length (data flame_smoke_frame) = 1600
   \<and> empty_Mat (Mat_default :: frame)
   \<and> detectPotentialFire plain_cv Mat_default = Inl StsAssert
   \<and> main_loop plain_cv initial_state [(Mat_default, - 1), (flame_smoke_frame, - 1)]
       = ([], EndOfStream)"
proof -
  have size: "rows flame_smoke_frame = 40" "cols flame_smoke_frame = 40"
    "length (data flame_smoke_frame) = 1600"
    by (simp_all add: flame_smoke_frame_def)
  show ?thesis
    using detectPotentialFire_result [of flame_smoke_frame plain_cv initial_state "- 1" "[]"]
      detectPotentialFire_result [of Mat_default plain_cv initial_state "- 1"
        "[(flame_smoke_frame, - 1)]"]
    by (simp add: flame_nonempty Mat_default_empty flame_smoke_fire size)
qed

text \<open>The claim as stated fails on the empty frame: the result is the exception.\<close>

theorem detectPotentialFire_empty_counterexample:
  "empty_Mat (Mat_default :: frame)
   \<and> detectPotentialFire plain_cv Mat_default = Inl StsAssert"
  by (simp add: Mat_default_empty detectPotentialFire_empty)

section \<open>The frame kept for the next iteration\<close>

lemma grey_pixel_fire:
  "detectPotentialFire plain_cv grey_pixel = Inr \<lparr>rows = 1, cols = 1, data = [0]\<rparr>"
  by (simp add: detectPotentialFire_def cvtColor_BGR2HSV_def cvtColor_BGR2GRAY_def
      bitwise_and_def same_size_def inRange_def threshold_def morphologyEx_plain
      empty_Mat_def plain_cv_simps pixel_values zip_mat_def map_mat_def grey_pixel_def)

lemma grey_pixel_smoke:
  "detectSmoke plain_cv grey_pixel \<lparr>rows = 1, cols = 1, data = [(v, v, v)]\<rparr> =
     Inr \<lparr>rows = 1, cols = 1,
          data = [if 15 < unat (if 200 \<le> gray_of_bgr (v, v, v)
                                then gray_of_bgr (v, v, v) - 200
                                else 200 - gray_of_bgr (v, v, v))
                  then 255 else 0]\<rparr>"
  by (simp add: detectSmoke_def cvtColor_BGR2HSV_def cvtColor_BGR2GRAY_def absdiff_def
      bitwise_and_def same_size_def inRange_def threshold_def morphologyEx_plain
      empty_Mat_def plain_cv_simps pixel_values(5,6) zip_mat_def map_mat_def grey_pixel_def)

lemma plain_contours_default:
  "find_contours plain_cv Mat_default RETR_EXTERNAL CHAIN_APPROX_SIMPLE = []"
  by (simp add: plain_cv_simps frame_contour_def countNonZero_def)

text \<open>
  Claim C7 fails on the code. The frame is drawn on in place (contours, alert text, the
  blend with the fire mask) before it is copied into \<open>prevFrame\<close>, so the next iteration
  compares its frame with the displayed image. On the frame of one grey pixel of level
  200, read in the initial state, the frame kept has level 140; a second, identical frame
  then differs from it by 60 and is taken for motion, where the frame as captured shows
  none.
\<close>

theorem previous_frame_is_displayed_frame:
  "\<exists>it. loop_body plain_cv initial_state grey_pixel = Inr it
     \<and> prevFrame (next_state it) = \<lparr>rows = 1, cols = 1, data = [(140, 140, 140)]\<rparr>
     \<and> prevFrame (next_state it) \<noteq> grey_pixel
     \<and> detectSmoke plain_cv grey_pixel (prevFrame (next_state it))
         = Inr \<lparr>rows = 1, cols = 1, data = [255]\<rparr>
     \<and> detectSmoke plain_cv grey_pixel grey_pixel
         = Inr \<lparr>rows = 1, cols = 1, data = [0]\<rparr>"
proof -
  obtain it where it: "loop_body plain_cv initial_state grey_pixel = Inr it"
    using loop_body_total [OF grey_pixel_nonempty] initial_prev_empty by blast
  note parts = loop_body_Inr [OF it]
  note first = first_iteration_smoke [OF it initial_prev_empty plain_contours_default]
  have fire: "potentialFire it = \<lparr>rows = 1, cols = 1, data = [0]\<rparr>"
    using parts(1) by (simp add: grey_pixel_fire)
  have quiet: "\<not> alert it"
    using parts(11) by (simp add: first(4) alert_condition_def)
  have "shown it = \<lparr>rows = 1, cols = 1, data = [(140, 140, 140)]\<rparr>"
    using parts(12)
    by (simp add: fire first(2) quiet cvtColor_GRAY2BGR_def empty_Mat_def addWeighted_def
        same_size_def plain_cv_simps round_clamp_def zip_mat_def map_mat_def grey_pixel_def)
  then have kept: "prevFrame (next_state it) = \<lparr>rows = 1, cols = 1, data = [(140, 140, 140)]\<rparr>"
    using parts(13) by simp
  have differs: "\<lparr>rows = 1, cols = 1, data = [(140, 140, 140)]\<rparr> \<noteq> grey_pixel"
    by (simp add: grey_pixel_def)
  have level: "gray_of_bgr (140, 140, 140) = 140"
    by (simp add: gray_of_bgr_def)
  have moved: "detectSmoke plain_cv grey_pixel \<lparr>rows = 1, cols = 1, data = [(140, 140, 140)]\<rparr>
      = Inr \<lparr>rows = 1, cols = 1, data = [255]\<rparr>"
    using grey_pixel_smoke [of 140] by (simp add: level)
  have "detectSmoke plain_cv grey_pixel \<lparr>rows = 1, cols = 1, data = [(200, 200, 200)]\<rparr>
      = Inr \<lparr>rows = 1, cols = 1, data = [0]\<rparr>"
    using grey_pixel_smoke [of 200] by (simp add: pixel_values(6))
  then have still: "detectSmoke plain_cv grey_pixel grey_pixel
      = Inr \<lparr>rows = 1, cols = 1, data = [0]\<rparr>"
    by (simp add: grey_pixel_def)
  show ?thesis
    using it kept differs moved still by simp
qed

section \<open>The first frames of a stream\<close>

lemma main_loop_Cons:
  "fst (main_loop cv st ((frame, key) # rest)) =
     (if empty_Mat frame then []
      else case loop_body cv st frame of
             Inl e \<Rightarrow> []
           | Inr it \<Rightarrow> it # (if key \<ge> 0 then [] else fst (main_loop cv (next_state it) rest)))"
  by (simp split: sum.splits prod.splits)

text \<open>
  From a state whose smoke counter lies between 0 and \<open>b\<close>, the counter after the
  iteration of index \<open>k\<close> is at most \<open>b + k + 1\<close>, as long as that stays below the
  largest \<^verbatim>\<open>int\<close>.
\<close>

lemma smoke_counter_bound:
  assumes "0 \<le> sint (consecutiveSmokeFrames st)"
    and "sint (consecutiveSmokeFrames st) \<le> b"
    and "b + int n < 2147483647"
    and "k < length (fst (main_loop cv st inputs))" and "k < n"
  shows "0 \<le> sint (consecutiveSmokeFrames (next_state (fst (main_loop cv st inputs) ! k)))
    \<and> sint (consecutiveSmokeFrames (next_state (fst (main_loop cv st inputs) ! k)))
        \<le> b + int k + 1"
  using assms
proof (induction inputs arbitrary: st b n k)
  case Nil
  then show ?case by simp
next
  case (Cons x rest)
  obtain frame key where x: "x = (frame, key)" by (cases x)
  from Cons.prems(4) have len: "fst (main_loop cv st ((frame, key) # rest)) \<noteq> []"
    unfolding x by (auto simp del: main_loop.simps)
  then have ne: "\<not> empty_Mat frame"
    by (simp add: main_loop_Cons del: main_loop.simps split: if_splits)
  from len ne obtain it where it: "loop_body cv st frame = Inr it"
    by (cases "loop_body cv st frame") (simp_all add: main_loop_Cons del: main_loop.simps)
  have tr: "fst (main_loop cv st (x # rest)) =
      it # (if key \<ge> 0 then [] else fst (main_loop cv (next_state it) rest))"
    unfolding x using ne it by (simp add: main_loop_Cons del: main_loop.simps)
  have small: "sint (consecutiveSmokeFrames st) < 2147483647"
    using Cons.prems(2,3) by simp
  have step: "0 \<le> sint (consecutiveSmokeFrames (next_state it))
      \<and> sint (consecutiveSmokeFrames (next_state it)) \<le> b + 1"
    using loop_body_Inr(10) [OF it] Cons.prems(1,2) sint_succ_32 [OF small]
    by (simp add: update_counter_def)
  show ?case
  proof (cases k)
    case 0
    with tr step show ?thesis by simp
  next
    case (Suc j)
    with Cons.prems(4) tr have run: "\<not> key \<ge> 0"
      and j: "j < length (fst (main_loop cv (next_state it) rest))"
      by (auto split: if_splits)
    from Suc Cons.prems(5) obtain m where m: "n = Suc m" "j < m"
      by (cases n) auto
    have "b + 1 + int m < 2147483647"
      using Cons.prems(3) m by simp
    from Cons.IH [OF conjunct1 [OF step] conjunct2 [OF step] this j m(2)]
    show ?thesis
      using tr run Suc by simp
  qed
qed

lemma addWeighted_size:
  "addWeighted cv src1 alpha src2 beta gamma = Inr dst \<Longrightarrow>
     rows dst = rows src1 \<and> cols dst = cols src1"
  by (auto simp add: addWeighted_def split: if_splits)

lemma loop_body_keeps_size:
  assumes "loop_body cv st frame = Inr it"
  shows "same_size frame (prevFrame (next_state it))"
proof -
  note parts = loop_body_Inr [OF assms]
  from parts(12) obtain vis img where
    "addWeighted cv img 0.7 vis 0.3 0 = Inr (shown it)"
    and "rows img = rows frame" and "cols img = cols frame"
    by (cases "alert it") (auto simp add: putText_def)
  then show ?thesis
    using parts(13) addWeighted_size [of cv img "0.7" vis "0.3" 0 "shown it"]
    by (simp add: same_size_def)
qed

text \<open>A stream that repeats one frame, with no key pressed, is processed to its end.\<close>

lemma main_loop_repeat:
  assumes "\<not> empty_Mat f"
    and "empty_Mat (prevFrame st) \<or> same_size f (prevFrame st)"
  shows "length (fst (main_loop cv st (replicate n (f, - 1)))) = n"
  using assms(2)
proof (induction n arbitrary: st)
  case 0
  then show ?case by simp
next
  case (Suc n)
  obtain it where it: "loop_body cv st f = Inr it"
    using loop_body_total [OF assms(1) Suc.prems] by blast
  have "length (fst (main_loop cv (next_state it) (replicate n (f, - 1)))) = n"
    using loop_body_keeps_size [OF it] by (intro Suc.IH) simp
  then show ?case
    using assms(1) it by (simp add: main_loop_Cons del: main_loop.simps)
qed

text \<open>
  Claim C10. The loop starts with no previous frame, so on the first frame the smoke
  detector returns the empty matrix. Provided contour tracing finds no contour in the
  empty matrix (a fact about \<^verbatim>\<open>findContours\<close>, which is a parameter here), the first
  iteration sees no significant smoke and leaves the smoke counter at 0; the counter
  after the frame of index \<open>k\<close> is then at most \<open>k\<close>, and no alert is raised on any of
  the first three frames.
\<close>

theorem no_alert_in_first_three_frames:
  assumes "find_contours cv Mat_default RETR_EXTERNAL CHAIN_APPROX_SIMPLE = []"
  shows "(\<forall>k < length (fst (main_loop cv initial_state inputs)). k < 3 \<longrightarrow>
            \<not> alert (fst (main_loop cv initial_state inputs) ! k)
            \<and> sint (consecutiveSmokeFrames
                  (next_state (fst (main_loop cv initial_state inputs) ! k))) \<le> int k)
         \<and> (loop_body cv initial_state frame = Inr it \<longrightarrow>
              smokeMask it = Mat_default \<and> \<not> significantSmoke it
              \<and> consecutiveSmokeFrames (next_state it) = 0)"
proof (intro conjI allI impI)
  assume "loop_body cv initial_state frame = Inr it"
  note first = first_iteration_smoke [OF this initial_prev_empty assms]
  show "smokeMask it = Mat_default" by (rule first(1))
  show "\<not> significantSmoke it" by (rule first(3))
  show "consecutiveSmokeFrames (next_state it) = 0" by (rule first(4))
next
  fix k
  let ?tr = "fst (main_loop cv initial_state inputs)"
  assume k: "k < length ?tr" "k < 3"
  have bound: "sint (consecutiveSmokeFrames (next_state (?tr ! k))) \<le> int k"
  proof (cases inputs)
    case Nil
    with k(1) show ?thesis by simp
  next
    case (Cons x rest)
    obtain f key where x: "x = (f, key)" by (cases x)
    from k(1) have len: "fst (main_loop cv initial_state ((f, key) # rest)) \<noteq> []"
      unfolding Cons x by (auto simp del: main_loop.simps)
    then have ne: "\<not> empty_Mat f"
      by (simp add: main_loop_Cons del: main_loop.simps split: if_splits)
    from len ne obtain it0 where it0: "loop_body cv initial_state f = Inr it0"
      by (cases "loop_body cv initial_state f")
        (simp_all add: main_loop_Cons del: main_loop.simps)
    have tr: "?tr = it0 # (if key \<ge> 0 then [] else fst (main_loop cv (next_state it0) rest))"
      unfolding Cons x using ne it0 by (simp add: main_loop_Cons del: main_loop.simps)
    have zero: "consecutiveSmokeFrames (next_state it0) = 0"
      by (rule first_iteration_smoke(4) [OF it0 initial_prev_empty assms])
    show ?thesis
    proof (cases k)
      case 0
      with tr zero show ?thesis by simp
    next
      case (Suc j)
      with k(1) tr have run: "\<not> key \<ge> 0"
        and j: "j < length (fst (main_loop cv (next_state it0) rest))"
        by (auto split: if_splits)
      have "j < 2" using Suc k(2) by simp
      from smoke_counter_bound [of "next_state it0" 0 2 j cv rest] zero j this
      have "sint (consecutiveSmokeFrames
          (next_state (fst (main_loop cv (next_state it0) rest) ! j))) \<le> int j + 1"
        by simp
      then show ?thesis
        using tr run Suc by simp
    qed
  qed
  then show "sint (consecutiveSmokeFrames (next_state (?tr ! k))) \<le> int k" .
  have "?tr ! k \<in> set ?tr"
    using k(1) by simp
  then obtain st' frame' where "loop_body cv st' frame' = Inr (?tr ! k)"
    using main_loop_iterations by blast
  from loop_body_Inr(11) [OF this] bound k(2) show "\<not> alert (?tr ! k)"
    by (simp add: alert_condition_def)
qed

text \<open>
  Four frames of one grey pixel: all four are processed, and none of the first three
  raises the alert.
\<close>

theorem no_alert_in_first_three_frames_witness:
  "find_contours plain_cv Mat_default RETR_EXTERNAL CHAIN_APPROX_SIMPLE = []
   \<and> length (fst (main_loop plain_cv initial_state (replicate 4 (grey_pixel, - 1)))) = 4
   \<and> \<not> alert (fst (main_loop plain_cv initial_state (replicate 4 (grey_pixel, - 1))) ! 0)
   \<and> \<not> alert (fst (main_loop plain_cv initial_state (replicate 4 (grey_pixel, - 1))) ! 1)
   \<and> \<not> alert (fst (main_loop plain_cv initial_state (replicate 4 (grey_pixel, - 1))) ! 2)"
proof -
  have len: "length (fst (main_loop plain_cv initial_state (replicate 4 (grey_pixel, - 1)))) = 4"
    using main_loop_repeat [OF grey_pixel_nonempty, of initial_state plain_cv 4]
      initial_prev_empty by simp
  note rule = no_alert_in_first_three_frames [OF plain_contours_default,
      of "replicate 4 (grey_pixel, - 1)", THEN conjunct1, rule_format]
  show ?thesis
    using len plain_contours_default rule [of 0] rule [of 1] rule [of 2] by simp
qed

end
